theory Spec2Isabelle
  imports Main "HOL-Library.Sublist"
begin

section \<open>Platform values: URLs, errors, dates\<close>

text \<open>
  A \<open>URL\<close> object of the platform: \<open>base\<close> is everything of the href that is not
  the query (scheme, host, path, fragment), \<open>searchParams\<close> the ordered query pairs.
  An href string of a well-formed URL is identified with the URL it denotes, so that
  \<open>new URL(u)\<close> and \<open>new URL(u.href)\<close> are a copy of \<open>u\<close>.
\<close>

record url =
  base :: string
  searchParams :: "(string \<times> string) list"

text \<open>
  A string handed to \<open>new URL(...)\<close>: either it denotes a URL, or the constructor
  throws a TypeError.
\<close>

datatype url_text = WellFormed url | Malformed string

text \<open>
  \<open>URLSearchParams.set\<close>: the first pair of that name takes the value and the other
  pairs of that name are removed; with no such pair, the pair is appended.
\<close>

fun params_set :: "string \<Rightarrow> string \<Rightarrow> (string \<times> string) list \<Rightarrow> (string \<times> string) list" where
  "params_set k v [] = [(k, v)]"
| "params_set k v (p # ps) =
     (if fst p = k then (k, v) # filter (\<lambda>q. fst q \<noteq> k) ps else p # params_set k v ps)"

definition searchParams_get :: "string \<Rightarrow> url \<Rightarrow> string option" where
  "searchParams_get k u = map_of (searchParams u) k"

definition searchParams_set :: "string \<Rightarrow> string \<Rightarrow> url \<Rightarrow> url" where
  "searchParams_set k v u = u\<lparr>searchParams := params_set k v (searchParams u)\<rparr>"

text \<open>A thrown value: always an error object, of one of these classes, with its message.\<close>

datatype error = Error string | TypeError string | RangeError string | SyntaxError string

fun message :: "error \<Rightarrow> string" where
  "message (Error m) = m"
| "message (TypeError m) = m"
| "message (RangeError m) = m"
| "message (SyntaxError m) = m"

definition startsWith :: "string \<Rightarrow> string \<Rightarrow> bool" where
  "startsWith s p = (take (length p) s = p)"

text \<open>
  A \<open>Date\<close> holds an instant in milliseconds or is invalid. An ISO string
  \<open>toISOString\<close> returns is identified with the instant it renders (always UTC).
\<close>

datatype js_date = ValidDate int | InvalidDate

datatype iso_string = ISO int

definition TimeClip :: "int \<Rightarrow> js_date" where
  "TimeClip ms = (if \<bar>ms\<bar> \<le> 8640000000000000 then ValidDate ms else InvalidDate)"

text \<open>\<open>new Date(x * 1000)\<close> for a number \<open>x\<close> that may be undefined (then the product is NaN).\<close>

definition Date_of_seconds :: "int option \<Rightarrow> js_date" where
  "Date_of_seconds x = (case x of None \<Rightarrow> InvalidDate | Some s \<Rightarrow> TimeClip (s * 1000))"

text \<open>
  \<open>new Date(s)\<close> for a date string \<open>s\<close> that may be undefined. A date string is
  identified with the instant it parses to, \<open>None\<close> when it does not parse.
\<close>

type_synonym date_text = "int option"

definition Date_of_text :: "date_text option \<Rightarrow> js_date" where
  "Date_of_text x =
     (case x of None \<Rightarrow> InvalidDate
      | Some None \<Rightarrow> InvalidDate
      | Some (Some ms) \<Rightarrow> TimeClip ms)"

definition toISOString :: "js_date \<Rightarrow> error + iso_string" where
  "toISOString d =
     (case d of InvalidDate \<Rightarrow> Inl (RangeError ''Invalid time value'')
      | ValidDate ms \<Rightarrow> Inr (ISO ms))"

section \<open>Sessions, requests, services\<close>

text \<open>The \<open>info\<close> of the Solid session the middleware resolved into \<open>res.locals.session\<close>.\<close>

record solid_session =
  info_sessionId :: string
  info_isLoggedIn :: bool
  info_webId :: "string option"
  info_expirationDate :: "int option"

text \<open>An access grant as the grant service returns it; its JSON text is identified with it.\<close>

record access_grant =
  grant_id :: string
  grant_expirationDate :: "date_text option"
  grant_payload :: string

text \<open>The cookie-bound \<open>req.session\<close>; \<open>None\<close> is a deleted or never-set property.\<close>

record cookie_session =
  solidSid :: "string option"
  redirectUrl :: "url option"
  workaroundActive :: "string option"
  accessGrant :: "access_grant option"
  sess_accessGrantExpirationDate :: "iso_string option"
  sess_pods :: "string list option"
  sess_locale :: "string option"

record request =
  locals_session :: "solid_session option"
  locals_pods :: "string list option"
  query_redirectUrl :: "url_text option"
  query_switchIdentity :: "string option"
  query_code :: "string option"
  query_state :: "string option"
  fullUrl :: string
  body_accessGrantId :: "string option"

text \<open>What \<open>solidStorage.get\<close> resolved to, as \<open>JSON.parse\<close> reads it.\<close>

datatype stored_text =
    Absent
  | Unparsable
  | ParsedNull
  | Parsed "string option"

text \<open>What \<open>getToken\<close> resolved to: nothing, or an object with its \<open>id_token\<close>.\<close>

datatype token_response = NoData | TokenData "string option"

text \<open>
  The external capabilities, as what each call answers during one request: \<open>Inl\<close> is
  a thrown error (a rejected promise). \<open>oidc_login\<close> answers the URL it hands to the
  redirect callback.
\<close>

record services =
  newSessionId :: string
  oidc_login :: "string option \<Rightarrow> error + url"
  handleIncomingRedirect :: "string \<Rightarrow> error + solid_session"
  session_logout :: "error + unit"
  storage_get :: "string \<Rightarrow> error + stored_text"
  getToken :: "string option \<Rightarrow> string option \<Rightarrow> string option \<Rightarrow> error + token_response"
  provisionWebId :: "string option \<Rightarrow> error + unit"
  fetchAccessGrant :: "string option \<Rightarrow> error + access_grant"

datatype call =
    Login "string option"
  | HandleIncomingRedirect string
  | SessionLogout
  | StorageGet string
  | GetToken "string option" "string option" "string option"
  | ProvisionWebId "string option"
  | FetchAccessGrant "string option"

record session_view =
  isLoggedIn :: bool
  expirationDate :: "iso_string option"
  accessGrantId :: "string option"
  accessGrantExpirationDate :: "iso_string option"
  webId :: "string option"
  pods :: "string list option"

datatype response =
    Redirect url
  | Json session_view
  | Send nat string
  | NextError error
  | NoResponse

text \<open>
  What a handler leaves behind. \<open>o_session\<close> is the cookie session as the session
  middleware saved it when the response ended: the session the browser's next request
  receives. \<open>o_request_session\<close> is the request's own \<open>req.session\<close> object when
  the handler returns; a write made after the response has ended shows there only. Then
  the global \<open>frontendUrl\<close> object, the response, and the capability calls made, in
  order.
\<close>

record outcome =
  o_session :: cookie_session
  o_request_session :: cookie_session
  o_frontendUrl :: url
  o_response :: response
  o_calls :: "call list"

definition truthy :: "string option \<Rightarrow> bool" where
  "truthy x = (case x of None \<Rightarrow> False | Some s \<Rightarrow> s \<noteq> [])"

section \<open>The authentication endpoints\<close>

text \<open>The redirect callback's first half: append the \<open>rrn\<close> scope.\<close>

definition addScope :: "url \<Rightarrow> url" where
  "addScope loginUrl =
     (let scope = searchParams_get ''scope'' loginUrl;
          scope' = (if truthy scope then the scope @ '' rrn'' else ''rrn'')
      in searchParams_set ''scope'' scope' loginUrl)"

definition switch_hint :: string where
  "switch_hint = ''eyJzd2l0Y2hfaWQiOiB0cnVlfQ==''"

definition loginRedirectUrl :: "bool \<Rightarrow> url \<Rightarrow> url" where
  "loginRedirectUrl switchIdentity u =
     (let loginUrl = addScope u
      in if switchIdentity then searchParams_set ''login_hint'' switch_hint loginUrl
         else loginUrl)"

text \<open>Line 40 of the login handler: store the href of the requested return target.\<close>

definition storeRedirectUrl :: "url_text option \<Rightarrow> cookie_session \<Rightarrow> error + cookie_session" where
  "storeRedirectUrl q sess =
     (case q of
        None \<Rightarrow> Inr sess
      | Some (Malformed s) \<Rightarrow> if s = [] then Inr sess else Inl (TypeError ''Invalid URL'')
      | Some (WellFormed u) \<Rightarrow> Inr (sess\<lparr>redirectUrl := Some u\<rparr>))"

definition login_handler :: "services \<Rightarrow> request \<Rightarrow> url \<Rightarrow> cookie_session \<Rightarrow> outcome" where
  "login_handler svc req frontendUrl sess =
     (let sid = newSessionId svc;
          sess1 = sess\<lparr>solidSid := Some sid\<rparr>
      in case storeRedirectUrl (query_redirectUrl req) sess1 of
           Inl e \<Rightarrow>
             \<lparr>o_session = sess1, o_request_session = sess1, o_frontendUrl = frontendUrl, o_response = NextError e, o_calls = []\<rparr>
         | Inr sess2 \<Rightarrow>
             (case oidc_login svc (Some sid) of
                Inl e \<Rightarrow>
                  \<lparr>o_session = sess2, o_request_session = sess2, o_frontendUrl = frontendUrl, o_response = NextError e,
                   o_calls = [Login (Some sid)]\<rparr>
              | Inr u \<Rightarrow>
                  \<lparr>o_session = sess2, o_request_session = sess2, o_frontendUrl = frontendUrl,
                   o_response = Redirect (loginRedirectUrl (truthy (query_switchIdentity req)) u),
                   o_calls = [Login (Some sid)]\<rparr>))"

definition logout_handler :: "services \<Rightarrow> request \<Rightarrow> url \<Rightarrow> cookie_session \<Rightarrow> outcome" where
  "logout_handler svc req frontendUrl sess =
     (let errorUrl = searchParams_set ''logout'' ''error'' frontendUrl
      in case locals_session req of
           None \<Rightarrow>
             \<lparr>o_session = sess, o_request_session = sess, o_frontendUrl = frontendUrl, o_response = Redirect errorUrl,
              o_calls = []\<rparr>
         | Some s \<Rightarrow>
             (case session_logout svc of
                Inl e \<Rightarrow>
                  \<lparr>o_session = sess, o_request_session = sess, o_frontendUrl = frontendUrl, o_response = Redirect errorUrl,
                   o_calls = [SessionLogout]\<rparr>
              | Inr _ \<Rightarrow>
                  (let sess' = sess\<lparr>accessGrant := None, sess_accessGrantExpirationDate := None,
                                    sess_pods := None, sess_locale := None, workaroundActive := None\<rparr>
                   in \<lparr>o_session = sess', o_request_session = sess', o_frontendUrl = frontendUrl,
                       o_response = Redirect (searchParams_set ''logout'' ''success'' frontendUrl),
                       o_calls = [SessionLogout]\<rparr>)))"

definition no_webid_claim :: "error \<Rightarrow> bool" where
  "no_webid_claim e = startsWith (message e) ''The token has no 'webid' claim''"

definition sessionId_of :: "solid_session option \<Rightarrow> string option" where
  "sessionId_of s = map_option info_sessionId s"

text \<open>
  The branch of \<open>/oidc-redirect\<close> taken while \<open>workaroundActive\<close> is falsy (lines
  125-167). With a stored return target, \<open>res.redirect\<close> (line 140) ends the response,
  and the session is saved as it is then; \<open>delete req.session.redirectUrl\<close> (line 141)
  comes after it and changes the request's own session object only. Every other write to
  \<open>req.session\<close> in the handlers comes before the response.
\<close>

definition redirect_normal :: "services \<Rightarrow> request \<Rightarrow> url \<Rightarrow> cookie_session \<Rightarrow> outcome" where
  "redirect_normal svc req frontendUrl sess =
     (case locals_session req of
        None \<Rightarrow>
          \<lparr>o_session = sess, o_request_session = sess, o_frontendUrl = frontendUrl,
           o_response = NextError (TypeError ''Cannot read properties of undefined''),
           o_calls = []\<rparr>
      | Some s \<Rightarrow>
          (case handleIncomingRedirect svc (fullUrl req) of
             Inr s' \<Rightarrow>
               if \<not> info_isLoggedIn s' then
                 (let errorUrl = searchParams_set ''login'' ''failed'' frontendUrl
                  in \<lparr>o_session = sess, o_request_session = sess, o_frontendUrl = errorUrl, o_response = Redirect errorUrl,
                      o_calls = [HandleIncomingRedirect (fullUrl req)]\<rparr>)
               else
                 (case redirectUrl sess of
                    Some r \<Rightarrow>
                      \<lparr>o_session = sess, o_request_session = sess\<lparr>redirectUrl := None\<rparr>,
                       o_frontendUrl = frontendUrl,
                       o_response = Redirect (searchParams_set ''login'' ''success'' r),
                       o_calls = [HandleIncomingRedirect (fullUrl req)]\<rparr>
                  | None \<Rightarrow>
                      \<lparr>o_session = sess, o_request_session = sess, o_frontendUrl = frontendUrl,
                       o_response = Redirect (searchParams_set ''login'' ''success'' frontendUrl),
                       o_calls = [HandleIncomingRedirect (fullUrl req)]\<rparr>)
           | Inl e \<Rightarrow>
               if no_webid_claim e then
                 (let sess' = sess\<lparr>workaroundActive := Some ''create_web_id''\<rparr>;
                      calls = [HandleIncomingRedirect (fullUrl req), Login (Some (info_sessionId s))]
                  in case oidc_login svc (Some (info_sessionId s)) of
                       Inl e' \<Rightarrow>
                         \<lparr>o_session = sess', o_request_session = sess', o_frontendUrl = frontendUrl,
                          o_response = NextError e', o_calls = calls\<rparr>
                     | Inr u \<Rightarrow>
                         \<lparr>o_session = sess', o_request_session = sess', o_frontendUrl = frontendUrl,
                          o_response = Redirect (loginRedirectUrl False u), o_calls = calls\<rparr>)
               else
                 \<lparr>o_session = sess, o_request_session = sess, o_frontendUrl = frontendUrl, o_response = NextError e,
                  o_calls = [HandleIncomingRedirect (fullUrl req)]\<rparr>))"

definition storageKey :: "string option \<Rightarrow> string" where
  "storageKey sid =
     ''solidClientAuthenticationUser:'' @ (case sid of None \<Rightarrow> ''undefined'' | Some s \<Rightarrow> s)"

text \<open>\<open>JSON.parse(stored).codeVerifier\<close>.\<close>

definition codeVerifier_of :: "stored_text \<Rightarrow> error + string option" where
  "codeVerifier_of st =
     (case st of
        Absent \<Rightarrow> Inl (SyntaxError ''undefined is not valid JSON'')
      | Unparsable \<Rightarrow> Inl (SyntaxError ''Unexpected token'')
      | ParsedNull \<Rightarrow> Inl (TypeError ''Cannot read properties of null'')
      | Parsed v \<Rightarrow> Inr v)"

text \<open>\<open>data.id_token\<close>.\<close>

definition id_token_of :: "token_response \<Rightarrow> error + string option" where
  "id_token_of d =
     (case d of
        NoData \<Rightarrow> Inl (TypeError ''Cannot read properties of undefined'')
      | TokenData t \<Rightarrow> Inr t)"

definition failed :: "cookie_session \<Rightarrow> url \<Rightarrow> error \<Rightarrow> call list \<Rightarrow> outcome" where
  "failed sess frontendUrl e calls =
     \<lparr>o_session = sess, o_request_session = sess, o_frontendUrl = frontendUrl, o_response = NextError e, o_calls = calls\<rparr>"

text \<open>The branch taken while \<open>workaroundActive === "create_web_id"\<close> (lines 168-190).\<close>

definition redirect_create_web_id :: "services \<Rightarrow> request \<Rightarrow> url \<Rightarrow> cookie_session \<Rightarrow> outcome" where
  "redirect_create_web_id svc req frontendUrl sess =
     (let key = storageKey (solidSid sess);
          c1 = [StorageGet key]
      in case storage_get svc key of
           Inl e \<Rightarrow> failed sess frontendUrl e c1
         | Inr st \<Rightarrow>
        (case codeVerifier_of st of
           Inl e \<Rightarrow> failed sess frontendUrl e c1
         | Inr codeVerifier \<Rightarrow>
        (let c2 = c1 @ [GetToken (query_code req) codeVerifier (query_state req)]
         in case getToken svc (query_code req) codeVerifier (query_state req) of
           Inl e \<Rightarrow> failed sess frontendUrl e c2
         | Inr d \<Rightarrow>
        (case id_token_of d of
           Inl e \<Rightarrow> failed sess frontendUrl e c2
         | Inr idToken \<Rightarrow>
        (let c3 = c2 @ [ProvisionWebId idToken]
         in case provisionWebId svc idToken of
           Inl e \<Rightarrow> failed sess frontendUrl e c3
         | Inr _ \<Rightarrow>
        (let sess' = sess\<lparr>workaroundActive := None\<rparr>;
             c4 = c3 @ [Login (sessionId_of (locals_session req))]
         in case oidc_login svc (sessionId_of (locals_session req)) of
           Inl e \<Rightarrow> failed sess' frontendUrl e c4
         | Inr u \<Rightarrow>
             \<lparr>o_session = sess', o_request_session = sess', o_frontendUrl = frontendUrl,
              o_response = Redirect (loginRedirectUrl True u), o_calls = c4\<rparr>))))))"

text \<open>\<open>GET /oidc-redirect\<close>: the dispatch on \<open>req.session.workaroundActive\<close>.\<close>

definition oidc_redirect :: "services \<Rightarrow> request \<Rightarrow> url \<Rightarrow> cookie_session \<Rightarrow> outcome" where
  "oidc_redirect svc req frontendUrl sess =
     (if \<not> truthy (workaroundActive sess) then redirect_normal svc req frontendUrl sess
      else if workaroundActive sess = Some ''create_web_id'' then
        redirect_create_web_id svc req frontendUrl sess
      else
        \<lparr>o_session = sess, o_request_session = sess, o_frontendUrl = frontendUrl, o_response = NoResponse, o_calls = []\<rparr>)"

text \<open>A browser's successive \<open>/oidc-redirect\<close> requests, each with what the services answer then.\<close>

fun oidc_redirects :: "(services \<times> request) list \<Rightarrow> url \<Rightarrow> cookie_session \<Rightarrow> outcome list" where
  "oidc_redirects [] frontendUrl sess = []"
| "oidc_redirects (sr # rest) frontendUrl sess =
     (let r = oidc_redirect (fst sr) (snd sr) frontendUrl sess
      in r # oidc_redirects rest (o_frontendUrl r) (o_session r))"

section \<open>The session endpoint\<close>

text \<open>Lines 48-79 of \<open>GET /session-information\<close>: the view, or the error thrown on the way.\<close>

definition sessionInformation :: "request \<Rightarrow> cookie_session \<Rightarrow> error + session_view" where
  "sessionInformation req sess =
     (let v0 = \<lparr>isLoggedIn = False, expirationDate = None, accessGrantId = None,
                accessGrantExpirationDate = None, webId = None, pods = None\<rparr>;
          r1 = (case locals_session req of
                  None \<Rightarrow> Inr v0
                | Some s \<Rightarrow>
                    (case toISOString (Date_of_seconds (info_expirationDate s)) of
                       Inl e \<Rightarrow> Inl e
                     | Inr stamp \<Rightarrow>
                         Inr (v0\<lparr>isLoggedIn := info_isLoggedIn s,
                                 expirationDate := Some stamp,
                                 webId := (if truthy (info_webId s) then info_webId s else None),
                                 pods := locals_pods req\<rparr>)))
      in case r1 of
           Inl e \<Rightarrow> Inl e
         | Inr v1 \<Rightarrow>
             Inr (v1\<lparr>accessGrantId :=
                        (case accessGrant sess of
                           None \<Rightarrow> None
                         | Some g \<Rightarrow> if grant_id g \<noteq> [] then Some (grant_id g) else None),
                      accessGrantExpirationDate := sess_accessGrantExpirationDate sess\<rparr>))"

definition session_information_handler :: "request \<Rightarrow> url \<Rightarrow> cookie_session \<Rightarrow> outcome" where
  "session_information_handler req frontendUrl sess =
     \<lparr>o_session = sess, o_request_session = sess, o_frontendUrl = frontendUrl,
      o_response = (case sessionInformation req sess of Inl e \<Rightarrow> NextError e | Inr v \<Rightarrow> Json v),
      o_calls = []\<rparr>"

section \<open>The access-grant endpoint\<close>

definition access_grant_handler :: "services \<Rightarrow> request \<Rightarrow> url \<Rightarrow> cookie_session \<Rightarrow> outcome" where
  "access_grant_handler svc req frontendUrl sess =
     (let calls = [FetchAccessGrant (body_accessGrantId req)]
      in case fetchAccessGrant svc (body_accessGrantId req) of
           Inl e \<Rightarrow> failed sess frontendUrl e calls
         | Inr g \<Rightarrow>
             (let sess1 = sess\<lparr>accessGrant := Some g\<rparr>
              in case toISOString (Date_of_text (grant_expirationDate g)) of
                   Inl e \<Rightarrow> failed sess1 frontendUrl e calls
                 | Inr stamp \<Rightarrow>
                     \<lparr>o_session = sess1\<lparr>sess_accessGrantExpirationDate := Some stamp\<rparr>,
                      o_request_session = sess1\<lparr>sess_accessGrantExpirationDate := Some stamp\<rparr>,
                      o_frontendUrl = frontendUrl,
                      o_response = Send 200 ''Access grant set on session'',
                      o_calls = calls\<rparr>))"

section \<open>Concrete requests and service answers\<close>

text \<open>Values at which the theorems below are exercised.\<close>

definition frontend0 :: url where
  "frontend0 = \<lparr>base = ''http://localhost:4200/'', searchParams = []\<rparr>"

definition return0 :: url where
  "return0 = \<lparr>base = ''http://localhost:4200/dashboard'', searchParams = [(''tab'', ''pods'')]\<rparr>"

definition idp0 :: url where
  "idp0 = \<lparr>base = ''https://idp.example/op/auth'',
            searchParams = [(''client_id'', ''demo''), (''scope'', ''openid webid'')]\<rparr>"

definition sess0 :: cookie_session where
  "sess0 = \<lparr>solidSid = None, redirectUrl = None, workaroundActive = None, accessGrant = None,
            sess_accessGrantExpirationDate = None, sess_pods = None, sess_locale = None\<rparr>"

definition solid_anonymous :: solid_session where
  "solid_anonymous = \<lparr>info_sessionId = ''sid-1'', info_isLoggedIn = False, info_webId = None,
                      info_expirationDate = None\<rparr>"

definition solid_alice :: solid_session where
  "solid_alice = \<lparr>info_sessionId = ''sid-1'', info_isLoggedIn = True,
                  info_webId = Some ''https://id.example/alice#me'',
                  info_expirationDate = Some 1767225600\<rparr>"

definition grant0 :: access_grant where
  "grant0 = \<lparr>grant_id = ''https://vc.example/vc/42'',
             grant_expirationDate = Some (Some 1798761600000), grant_payload = ''signed''\<rparr>"

definition req0 :: request where
  "req0 = \<lparr>locals_session = None, locals_pods = None, query_redirectUrl = None,
           query_switchIdentity = None, query_code = None, query_state = None,
           fullUrl = ''http://localhost:3001/'', body_accessGrantId = None\<rparr>"

definition req_login :: request where
  "req_login = req0\<lparr>query_redirectUrl := Some (WellFormed return0),
                     fullUrl := ''http://localhost:3001/login''\<rparr>"

definition req_redirect :: request where
  "req_redirect = req0\<lparr>locals_session := Some solid_anonymous, query_code := Some ''code-1'',
                        query_state := Some ''state-1'',
                        fullUrl := ''http://localhost:3001/oidc-redirect?code=code-1&state=state-1''\<rparr>"

definition req_grant :: request where
  "req_grant = req0\<lparr>locals_session := Some solid_alice,
                     body_accessGrantId := Some ''https://vc.example/vc/42''\<rparr>"

definition no_claim_error :: error where
  "no_claim_error = Error ''The token has no 'webid' claim, and its 'sub' claim is not a valid IRI.''"

text \<open>Every capability answers; the redirect completion logs Alice in.\<close>

definition svc_ok :: services where
  "svc_ok = \<lparr>newSessionId = ''sid-1'',
             oidc_login = (\<lambda>_. Inr idp0),
             handleIncomingRedirect = (\<lambda>_. Inr solid_alice),
             session_logout = Inr (),
             storage_get = (\<lambda>_. Inr (Parsed (Some ''verifier-1''))),
             getToken = (\<lambda>_ _ _. Inr (TokenData (Some ''id-token-1''))),
             provisionWebId = (\<lambda>_. Inr ()),
             fetchAccessGrant = (\<lambda>_. Inr grant0)\<rparr>"

text \<open>The redirect completion finds no WebID claim in the token.\<close>

definition svc_no_claim :: services where
  "svc_no_claim = svc_ok\<lparr>handleIncomingRedirect := (\<lambda>_. Inl no_claim_error)\<rparr>"

text \<open>As before, and the provider cannot be reached when the login is started again.\<close>

definition svc_no_claim_login_down :: services where
  "svc_no_claim_login_down = svc_no_claim\<lparr>oidc_login := (\<lambda>_. Inl (Error ''fetch failed''))\<rparr>"

text \<open>The redirect completion fails for another reason.\<close>

definition svc_bad_state :: services where
  "svc_bad_state = svc_ok\<lparr>handleIncomingRedirect := (\<lambda>_. Inl (Error ''state mismatch''))\<rparr>"

text \<open>The redirect completion returns, and the session is not logged in.\<close>

definition svc_not_logged_in :: services where
  "svc_not_logged_in = svc_ok\<lparr>handleIncomingRedirect := (\<lambda>_. Inr solid_anonymous)\<rparr>"

text \<open>The identity invalidation fails.\<close>

definition svc_logout_fails :: services where
  "svc_logout_fails = svc_ok\<lparr>session_logout := Inl (Error ''logout failed'')\<rparr>"

text \<open>The cookie session once \<open>/login\<close> has run.\<close>

definition sess_after_login :: cookie_session where
  "sess_after_login = sess0\<lparr>solidSid := Some ''sid-1''\<rparr>"

text \<open>A cookie session waiting in the provisioning workaround.\<close>

definition sess_provisioning :: cookie_session where
  "sess_provisioning = sess0\<lparr>solidSid := Some ''sid-1'', workaroundActive := Some ''create_web_id''\<rparr>"

text \<open>A cookie session that still holds a grant stored earlier.\<close>

definition sess_with_grant :: cookie_session where
  "sess_with_grant = sess0\<lparr>accessGrant := Some grant0,
                           sess_accessGrantExpirationDate := Some (ISO 1798761600000)\<rparr>"

definition req_logout :: request where
  "req_logout = req0\<lparr>locals_session := Some solid_alice, fullUrl := ''http://localhost:3001/logout''\<rparr>"

text \<open>A request whose Solid session was resolved before its login completed.\<close>

definition req_info_pending :: request where
  "req_info_pending = req0\<lparr>locals_session := Some solid_anonymous,
                            fullUrl := ''http://localhost:3001/session-information''\<rparr>"

definition req_info_alice :: request where
  "req_info_alice = req0\<lparr>locals_session := Some solid_alice,
                          locals_pods := Some [''https://pod.example/alice/''],
                          fullUrl := ''http://localhost:3001/session-information''\<rparr>"

text \<open>
  One browser, two logins in a row: the first asks for a return target and completes, the
  second asks for none and completes.
\<close>

definition req_login_plain :: request where
  "req_login_plain = req0\<lparr>fullUrl := ''http://localhost:3001/login''\<rparr>"

definition first_login :: outcome where
  "first_login = login_handler svc_ok req_login frontend0 sess0"

definition first_completion :: outcome where
  "first_completion =
     oidc_redirect svc_ok req_redirect (o_frontendUrl first_login) (o_session first_login)"

definition second_login :: outcome where
  "second_login =
     login_handler svc_ok req_login_plain (o_frontendUrl first_completion) (o_session first_completion)"

definition second_completion :: outcome where
  "second_completion =
     oidc_redirect svc_ok req_redirect (o_frontendUrl second_login) (o_session second_login)"

definition is_provision :: "call \<Rightarrow> bool" where
  "is_provision c = (case c of ProvisionWebId _ \<Rightarrow> True | _ \<Rightarrow> False)"

definition all_calls :: "outcome list \<Rightarrow> call list" where
  "all_calls rs = concat (map o_calls rs)"

section \<open>Facts about query parameters\<close>

lemma map_of_params_set_same: "map_of (params_set k v ps) k = Some v"
  by (induction ps) auto

lemma map_of_filter_other:
  "k' \<noteq> k \<Longrightarrow> map_of (filter (\<lambda>q. fst q \<noteq> k) ps) k' = map_of ps k'"
  by (induction ps) auto

lemma map_of_params_set_other: "k' \<noteq> k \<Longrightarrow> map_of (params_set k v ps) k' = map_of ps k'"
  by (induction ps) (auto simp: map_of_filter_other)

lemma get_set_same: "searchParams_get k (searchParams_set k v u) = Some v"
  by (simp add: searchParams_get_def searchParams_set_def map_of_params_set_same)

lemma get_set_other:
  "k' \<noteq> k \<Longrightarrow> searchParams_get k' (searchParams_set k v u) = searchParams_get k' u"
  by (simp add: searchParams_get_def searchParams_set_def map_of_params_set_other)

lemma base_set: "base (searchParams_set k v u) = base u"
  by (simp add: searchParams_set_def)

lemma login_hint_carried:
  "searchParams_get ''login_hint'' (loginRedirectUrl True u) = Some switch_hint"
  by (simp add: loginRedirectUrl_def Let_def get_set_same)

lemmas example_defs = frontend0_def return0_def idp0_def sess0_def solid_anonymous_def
  solid_alice_def grant0_def req0_def req_login_def req_redirect_def req_grant_def
  no_claim_error_def svc_ok_def svc_no_claim_def svc_no_claim_login_down_def
  svc_bad_state_def svc_not_logged_in_def svc_logout_fails_def sess_after_login_def
  sess_provisioning_def sess_with_grant_def req_logout_def req_info_pending_def
  req_info_alice_def

lemmas handler_defs = oidc_redirect_def redirect_normal_def redirect_create_web_id_def
  failed_def truthy_def no_webid_claim_def startsWith_def sessionId_of_def storageKey_def
  codeVerifier_of_def id_token_of_def

lemma sess0_not_in_workaround: "\<not> truthy (workaroundActive sess0)"
  by (simp add: truthy_def sess0_def)

lemma req_redirect_session: "locals_session req_redirect = Some solid_anonymous"
  by (simp add: req_redirect_def req0_def)

lemma no_claim_error_matches: "no_webid_claim no_claim_error"
  by (simp add: no_webid_claim_def no_claim_error_def startsWith_def)

lemma login_url_idp0:
  "loginRedirectUrl False idp0 =
     \<lparr>base = ''https://idp.example/op/auth'',
      searchParams = [(''client_id'', ''demo''), (''scope'', ''openid webid rrn'')]\<rparr>"
  by (simp add: loginRedirectUrl_def addScope_def idp0_def searchParams_get_def
      searchParams_set_def truthy_def)

lemma login_url_idp0_switch:
  "loginRedirectUrl True idp0 =
     \<lparr>base = ''https://idp.example/op/auth'',
      searchParams = [(''client_id'', ''demo''), (''scope'', ''openid webid rrn''),
                      (''login_hint'', ''eyJzd2l0Y2hfaWQiOiB0cnVlfQ=='')]\<rparr>"
  by (simp add: loginRedirectUrl_def addScope_def idp0_def searchParams_get_def
      searchParams_set_def truthy_def switch_hint_def)

section \<open>Redirect completion in the normal state\<close>

text \<open>
  C1, as the code has it. On \<open>/oidc-redirect\<close> with \<open>workaroundActive\<close> unset and a
  resolved Solid session, when the redirect completion throws an error whose message starts
  with "The token has no 'webid' claim", the handler sets \<open>workaroundActive\<close> to
  \<open>create_web_id\<close> and calls the login capability again, leaving the global front-end URL
  alone. When that login answers with its URL, the response is the login redirect (scope
  extended by \<open>rrn\<close>, no login hint) and no error is reported; when the login itself
  throws, that error goes to the generic error handler, with \<open>workaroundActive\<close> already
  set. Every other failure of the redirect completion goes to the generic error handler
  and leaves the session as it was.
\<close>

theorem missing_claim_enters_workaround:
  assumes "\<not> truthy (workaroundActive sess)"
    and "locals_session req = Some s"
    and "handleIncomingRedirect svc (fullUrl req) = Inl e"
  shows "(no_webid_claim e \<longrightarrow>
            workaroundActive (o_session (oidc_redirect svc req g sess)) = Some ''create_web_id''
          \<and> o_calls (oidc_redirect svc req g sess) =
              [HandleIncomingRedirect (fullUrl req), Login (Some (info_sessionId s))]
          \<and> o_frontendUrl (oidc_redirect svc req g sess) = g
          \<and> (\<forall>u. oidc_login svc (Some (info_sessionId s)) = Inr u \<longrightarrow>
                 o_response (oidc_redirect svc req g sess) = Redirect (loginRedirectUrl False u))
          \<and> (\<forall>e'. oidc_login svc (Some (info_sessionId s)) = Inl e' \<longrightarrow>
                 o_response (oidc_redirect svc req g sess) = NextError e'))
       \<and> (\<not> no_webid_claim e \<longrightarrow>
            o_response (oidc_redirect svc req g sess) = NextError e
          \<and> o_session (oidc_redirect svc req g sess) = sess
          \<and> o_calls (oidc_redirect svc req g sess) = [HandleIncomingRedirect (fullUrl req)])"
  using assms
  by (cases "oidc_login svc (Some (info_sessionId s))")
     (simp_all add: oidc_redirect_def redirect_normal_def Let_def)

theorem missing_claim_enters_workaround_witness:
  "\<not> truthy (workaroundActive sess0)
   \<and> locals_session req_redirect = Some solid_anonymous
   \<and> handleIncomingRedirect svc_no_claim (fullUrl req_redirect) = Inl no_claim_error
   \<and> no_webid_claim no_claim_error
   \<and> workaroundActive (o_session (oidc_redirect svc_no_claim req_redirect frontend0 sess0))
       = Some ''create_web_id''
   \<and> o_response (oidc_redirect svc_no_claim req_redirect frontend0 sess0)
       = Redirect \<lparr>base = ''https://idp.example/op/auth'',
                   searchParams = [(''client_id'', ''demo''), (''scope'', ''openid webid rrn'')]\<rparr>
   \<and> handleIncomingRedirect svc_bad_state (fullUrl req_redirect) = Inl (Error ''state mismatch'')
   \<and> \<not> no_webid_claim (Error ''state mismatch'')
   \<and> o_response (oidc_redirect svc_bad_state req_redirect frontend0 sess0)
       = NextError (Error ''state mismatch'')
   \<and> o_session (oidc_redirect svc_bad_state req_redirect frontend0 sess0) = sess0"
proof -
  have h3: "handleIncomingRedirect svc_no_claim (fullUrl req_redirect) = Inl no_claim_error"
    by (simp add: svc_no_claim_def svc_ok_def)
  have h5: "oidc_login svc_no_claim (Some (info_sessionId solid_anonymous)) = Inr idp0"
    by (simp add: svc_no_claim_def svc_ok_def)
  have k3: "handleIncomingRedirect svc_bad_state (fullUrl req_redirect) = Inl (Error ''state mismatch'')"
    by (simp add: svc_bad_state_def svc_ok_def)
  have k4: "\<not> no_webid_claim (Error ''state mismatch'')"
    by (simp add: no_webid_claim_def startsWith_def)
  from missing_claim_enters_workaround
         [OF sess0_not_in_workaround req_redirect_session h3, of frontend0]
       missing_claim_enters_workaround
         [OF sess0_not_in_workaround req_redirect_session k3, of frontend0]
       sess0_not_in_workaround req_redirect_session h3 no_claim_error_matches h5 login_url_idp0
       k3 k4
  show ?thesis by simp
qed

text \<open>
  C1 as the spec words it fails where the login started again cannot reach the provider:
  the redirect completion throws the recognised error, and the caller still gets an error.
\<close>

theorem missing_claim_login_error_reported:
  "\<not> truthy (workaroundActive sess0)
   \<and> locals_session req_redirect = Some solid_anonymous
   \<and> handleIncomingRedirect svc_no_claim_login_down (fullUrl req_redirect) = Inl no_claim_error
   \<and> no_webid_claim no_claim_error
   \<and> o_response (oidc_redirect svc_no_claim_login_down req_redirect frontend0 sess0)
       = NextError (Error ''fetch failed'')"
  by (simp add: handler_defs example_defs Let_def)

section \<open>Redirect completion in the provisioning workaround\<close>

text \<open>
  C2. On \<open>/oidc-redirect\<close> with \<open>workaroundActive = create_web_id\<close> the handler never
  calls the normal redirect completion, and its capability calls are always an initial
  part of this sequence: read the stored record under the key of the cookie session's
  \<open>solidSid\<close>; exchange the token with the request's code and state and the stored code
  verifier; provision the WebID with the response's identity token; start the login again.
  \<open>workaroundActive\<close> is cleared only after the provisioning answered, and before the
  login is started. When the three calls answer, the whole sequence runs, the state is
  cleared, and the login redirect carries the fixed identity-switch \<open>login_hint\<close>.
\<close>

theorem provisioning_leg_order:
  assumes "workaroundActive sess = Some ''create_web_id''"
  shows "(\<forall>x. HandleIncomingRedirect x \<notin> set (o_calls (oidc_redirect svc req g sess)))
       \<and> (\<exists>v' t'. prefix (o_calls (oidc_redirect svc req g sess))
             [StorageGet (storageKey (solidSid sess)),
              GetToken (query_code req) v' (query_state req),
              ProvisionWebId t',
              Login (sessionId_of (locals_session req))])
       \<and> (Login (sessionId_of (locals_session req)) \<in> set (o_calls (oidc_redirect svc req g sess))
            \<longrightarrow> workaroundActive (o_session (oidc_redirect svc req g sess)) = None)
       \<and> (workaroundActive (o_session (oidc_redirect svc req g sess)) = None
            \<longrightarrow> (\<exists>t'. ProvisionWebId t' \<in> set (o_calls (oidc_redirect svc req g sess))
                      \<and> provisionWebId svc t' = Inr ()))
       \<and> (storage_get svc (storageKey (solidSid sess)) = Inr (Parsed v)
            \<and> getToken svc (query_code req) v (query_state req) = Inr (TokenData t)
            \<and> provisionWebId svc t = Inr ()
            \<longrightarrow> o_calls (oidc_redirect svc req g sess) =
                  [StorageGet (storageKey (solidSid sess)),
                   GetToken (query_code req) v (query_state req),
                   ProvisionWebId t,
                   Login (sessionId_of (locals_session req))]
               \<and> workaroundActive (o_session (oidc_redirect svc req g sess)) = None
               \<and> (\<forall>u. oidc_login svc (sessionId_of (locals_session req)) = Inr u \<longrightarrow>
                      o_response (oidc_redirect svc req g sess) = Redirect (loginRedirectUrl True u)
                    \<and> searchParams_get ''login_hint'' (loginRedirectUrl True u) = Some switch_hint))"
proof -
  let ?r = "oidc_redirect svc req g sess"
  have r: "?r = redirect_create_web_id svc req g sess"
    using assms by (simp add: oidc_redirect_def truthy_def)
  have never_completes: "\<forall>x. HandleIncomingRedirect x \<notin> set (o_calls ?r)"
    unfolding r
    by (auto simp: redirect_create_web_id_def failed_def Let_def split: sum.splits)
  have in_order: "\<exists>v' t'. prefix (o_calls ?r)
             [StorageGet (storageKey (solidSid sess)),
              GetToken (query_code req) v' (query_state req),
              ProvisionWebId t',
              Login (sessionId_of (locals_session req))]"
    unfolding r
    by (auto simp: redirect_create_web_id_def failed_def Let_def split: sum.splits)
  have cleared_before_login:
    "Login (sessionId_of (locals_session req)) \<in> set (o_calls ?r)
       \<longrightarrow> workaroundActive (o_session ?r) = None"
    unfolding r
    by (auto simp: redirect_create_web_id_def failed_def Let_def split: sum.splits)
  have cleared_after_provisioning:
    "workaroundActive (o_session ?r) = None
       \<longrightarrow> (\<exists>t'. ProvisionWebId t' \<in> set (o_calls ?r) \<and> provisionWebId svc t' = Inr ())"
    unfolding r using assms
    by (auto simp: redirect_create_web_id_def failed_def Let_def split: sum.splits)
  have whole_leg:
    "storage_get svc (storageKey (solidSid sess)) = Inr (Parsed v)
       \<and> getToken svc (query_code req) v (query_state req) = Inr (TokenData t)
       \<and> provisionWebId svc t = Inr ()
       \<longrightarrow> o_calls ?r =
             [StorageGet (storageKey (solidSid sess)),
              GetToken (query_code req) v (query_state req),
              ProvisionWebId t,
              Login (sessionId_of (locals_session req))]
          \<and> workaroundActive (o_session ?r) = None
          \<and> (\<forall>u. oidc_login svc (sessionId_of (locals_session req)) = Inr u \<longrightarrow>
                 o_response ?r = Redirect (loginRedirectUrl True u)
               \<and> searchParams_get ''login_hint'' (loginRedirectUrl True u) = Some switch_hint)"
    unfolding r
    by (cases "oidc_login svc (sessionId_of (locals_session req))")
       (simp_all add: redirect_create_web_id_def failed_def Let_def codeVerifier_of_def
          id_token_of_def login_hint_carried)
  from never_completes in_order cleared_before_login cleared_after_provisioning whole_leg
  show ?thesis by blast
qed

theorem provisioning_leg_order_witness:
  "workaroundActive sess_provisioning = Some ''create_web_id''
   \<and> storage_get svc_ok (storageKey (solidSid sess_provisioning)) = Inr (Parsed (Some ''verifier-1''))
   \<and> getToken svc_ok (query_code req_redirect) (Some ''verifier-1'') (query_state req_redirect)
       = Inr (TokenData (Some ''id-token-1''))
   \<and> provisionWebId svc_ok (Some ''id-token-1'') = Inr ()
   \<and> o_calls (oidc_redirect svc_ok req_redirect frontend0 sess_provisioning) =
       [StorageGet ''solidClientAuthenticationUser:sid-1'',
        GetToken (Some ''code-1'') (Some ''verifier-1'') (Some ''state-1''),
        ProvisionWebId (Some ''id-token-1''),
        Login (Some ''sid-1'')]
   \<and> workaroundActive (o_session (oidc_redirect svc_ok req_redirect frontend0 sess_provisioning)) = None
   \<and> o_response (oidc_redirect svc_ok req_redirect frontend0 sess_provisioning) =
       Redirect \<lparr>base = ''https://idp.example/op/auth'',
                 searchParams = [(''client_id'', ''demo''), (''scope'', ''openid webid rrn''),
                                 (''login_hint'', ''eyJzd2l0Y2hfaWQiOiB0cnVlfQ=='')]\<rparr>"
proof -
  have h: "workaroundActive sess_provisioning = Some ''create_web_id''"
    by (simp add: sess_provisioning_def sess0_def)
  have k: "storageKey (solidSid sess_provisioning) = ''solidClientAuthenticationUser:sid-1''"
    by (simp add: storageKey_def sess_provisioning_def sess0_def)
  have q: "query_code req_redirect = Some ''code-1''" "query_state req_redirect = Some ''state-1''"
    "sessionId_of (locals_session req_redirect) = Some ''sid-1''"
    by (simp_all add: req_redirect_def req0_def sessionId_of_def solid_anonymous_def)
  have s: "storage_get svc_ok ''solidClientAuthenticationUser:sid-1'' = Inr (Parsed (Some ''verifier-1''))"
    "getToken svc_ok (Some ''code-1'') (Some ''verifier-1'') (Some ''state-1'')
       = Inr (TokenData (Some ''id-token-1''))"
    "provisionWebId svc_ok (Some ''id-token-1'') = Inr ()"
    "oidc_login svc_ok (Some ''sid-1'') = Inr idp0"
    by (simp_all add: svc_ok_def)
  from provisioning_leg_order
         [OF h, of svc_ok req_redirect frontend0 "Some ''verifier-1''" "Some ''id-token-1''"]
       h k q s login_url_idp0_switch
  show ?thesis by simp
qed

section \<open>Logout\<close>

text \<open>
  C7. \<open>GET /logout\<close> on a resolved session always answers with a redirect to a copy of
  the front-end URL: with \<open>logout=success\<close> when the identity invalidation succeeds, with
  \<open>logout=error\<close> when it throws. No error reaches the generic error handler, and the
  global front-end URL is left as it was.
\<close>

theorem logout_always_redirects:
  assumes "locals_session req = Some s"
  shows "(session_logout svc = Inr () \<longrightarrow>
            o_response (logout_handler svc req g sess) =
              Redirect (searchParams_set ''logout'' ''success'' g))
       \<and> (\<forall>e. session_logout svc = Inl e \<longrightarrow>
            o_response (logout_handler svc req g sess) =
              Redirect (searchParams_set ''logout'' ''error'' g))
       \<and> (\<exists>v. v \<in> {''success'', ''error''} \<and>
               o_response (logout_handler svc req g sess) = Redirect (searchParams_set ''logout'' v g))
       \<and> (\<forall>e. o_response (logout_handler svc req g sess) \<noteq> NextError e)
       \<and> o_frontendUrl (logout_handler svc req g sess) = g"
  using assms
  by (cases "session_logout svc") (auto simp: logout_handler_def Let_def)

theorem logout_always_redirects_witness:
  "locals_session req_logout = Some solid_alice
   \<and> session_logout svc_logout_fails = Inl (Error ''logout failed'')
   \<and> o_response (logout_handler svc_logout_fails req_logout frontend0 sess_with_grant) =
       Redirect \<lparr>base = ''http://localhost:4200/'', searchParams = [(''logout'', ''error'')]\<rparr>
   \<and> session_logout svc_ok = Inr ()
   \<and> o_response (logout_handler svc_ok req_logout frontend0 sess_with_grant) =
       Redirect \<lparr>base = ''http://localhost:4200/'', searchParams = [(''logout'', ''success'')]\<rparr>"
proof -
  have h: "locals_session req_logout = Some solid_alice"
    by (simp add: req_logout_def req0_def)
  have a: "session_logout svc_logout_fails = Inl (Error ''logout failed'')"
    "session_logout svc_ok = Inr ()"
    by (simp_all add: svc_logout_fails_def svc_ok_def)
  have u: "searchParams_set ''logout'' ''error'' frontend0 =
             \<lparr>base = ''http://localhost:4200/'', searchParams = [(''logout'', ''error'')]\<rparr>"
    "searchParams_set ''logout'' ''success'' frontend0 =
             \<lparr>base = ''http://localhost:4200/'', searchParams = [(''logout'', ''success'')]\<rparr>"
    by (simp_all add: searchParams_set_def frontend0_def)
  from logout_always_redirects [OF h, of svc_logout_fails frontend0 sess_with_grant]
       logout_always_redirects [OF h, of svc_ok frontend0 sess_with_grant]
       h a u
  show ?thesis by simp
qed

section \<open>The session view\<close>

text \<open>
  C6. With no resolved Solid session and no access grant on the cookie session, the body
  of \<open>GET /session-information\<close> is exactly \<open>{isLoggedIn: false}\<close>: every other key is
  absent.
\<close>

theorem no_session_view_is_bare:
  assumes "locals_session req = None"
    and "accessGrant sess = None"
    and "sess_accessGrantExpirationDate sess = None"
  shows "o_response (session_information_handler req g sess) =
           Json \<lparr>isLoggedIn = False, expirationDate = None, accessGrantId = None,
                 accessGrantExpirationDate = None, webId = None, pods = None\<rparr>"
  using assms by (simp add: session_information_handler_def sessionInformation_def)

theorem no_session_view_is_bare_witness:
  "locals_session req0 = None
   \<and> accessGrant sess0 = None
   \<and> sess_accessGrantExpirationDate sess0 = None
   \<and> o_response (session_information_handler req0 frontend0 sess0) =
       Json \<lparr>isLoggedIn = False, expirationDate = None, accessGrantId = None,
             accessGrantExpirationDate = None, webId = None, pods = None\<rparr>"
proof -
  have h: "locals_session req0 = None" "accessGrant sess0 = None"
    "sess_accessGrantExpirationDate sess0 = None"
    by (simp_all add: req0_def sess0_def)
  from no_session_view_is_bare [OF h, of frontend0] h show ?thesis by simp
qed

text \<open>
  C4, as the code has it. With no resolved Solid session the view has \<open>isLoggedIn\<close>
  false and no \<open>webId\<close>, \<open>pods\<close> or \<open>expirationDate\<close>. The access-grant fields do not
  depend on \<open>isLoggedIn\<close>: \<open>accessGrantId\<close> and \<open>accessGrantExpirationDate\<close> are
  present exactly when the cookie session holds them. With a resolved session whose
  expiration date renders, \<open>webId\<close> and \<open>pods\<close> are included whenever they are
  present, whatever \<open>isLoggedIn\<close> is.
\<close>

theorem view_fields_by_source:
  "(locals_session req = None \<longrightarrow>
      o_response (session_information_handler req g sess) =
        Json \<lparr>isLoggedIn = False, expirationDate = None,
              accessGrantId = (case accessGrant sess of None \<Rightarrow> None
                               | Some a \<Rightarrow> if grant_id a \<noteq> [] then Some (grant_id a) else None),
              accessGrantExpirationDate = sess_accessGrantExpirationDate sess,
              webId = None, pods = None\<rparr>)
   \<and> (\<forall>s x. locals_session req = Some s \<and> Date_of_seconds (info_expirationDate s) = ValidDate x \<longrightarrow>
      o_response (session_information_handler req g sess) =
        Json \<lparr>isLoggedIn = info_isLoggedIn s, expirationDate = Some (ISO x),
              accessGrantId = (case accessGrant sess of None \<Rightarrow> None
                               | Some a \<Rightarrow> if grant_id a \<noteq> [] then Some (grant_id a) else None),
              accessGrantExpirationDate = sess_accessGrantExpirationDate sess,
              webId = (if truthy (info_webId s) then info_webId s else None),
              pods = locals_pods req\<rparr>)"
  by (simp add: session_information_handler_def sessionInformation_def toISOString_def)

theorem view_fields_by_source_witness:
  "locals_session req_info_alice = Some solid_alice
   \<and> Date_of_seconds (info_expirationDate solid_alice) = ValidDate 1767225600000
   \<and> o_response (session_information_handler req_info_alice frontend0 sess0) =
       Json \<lparr>isLoggedIn = True, expirationDate = Some (ISO 1767225600000),
             accessGrantId = None, accessGrantExpirationDate = None,
             webId = Some ''https://id.example/alice#me'',
             pods = Some [''https://pod.example/alice/'']\<rparr>
   \<and> locals_session req0 = None
   \<and> o_response (session_information_handler req0 frontend0 sess0) =
       Json \<lparr>isLoggedIn = False, expirationDate = None, accessGrantId = None,
             accessGrantExpirationDate = None, webId = None, pods = None\<rparr>"
proof -
  have a: "locals_session req_info_alice = Some solid_alice"
    "locals_pods req_info_alice = Some [''https://pod.example/alice/'']"
    "locals_session req0 = None"
    by (simp_all add: req_info_alice_def req0_def)
  have d: "Date_of_seconds (info_expirationDate solid_alice) = ValidDate 1767225600000"
    by (simp add: Date_of_seconds_def TimeClip_def solid_alice_def)
  have s: "info_isLoggedIn solid_alice" "info_webId solid_alice = Some ''https://id.example/alice#me''"
    "accessGrant sess0 = None" "sess_accessGrantExpirationDate sess0 = None"
    by (simp_all add: solid_alice_def sess0_def)
  from view_fields_by_source [of req_info_alice frontend0 sess0]
       view_fields_by_source [of req0 frontend0 sess0] a d s
  show ?thesis by (simp add: truthy_def)
qed

text \<open>
  C4 as the spec words it fails for a browser whose Solid session is gone while its
  cookie session still holds a grant: the view says \<open>isLoggedIn\<close> false and carries both
  access-grant fields.
\<close>

theorem logged_out_view_keeps_grant:
  "locals_session req0 = None
   \<and> o_response (session_information_handler req0 frontend0 sess_with_grant) =
       Json \<lparr>isLoggedIn = False, expirationDate = None,
             accessGrantId = Some ''https://vc.example/vc/42'',
             accessGrantExpirationDate = Some (ISO 1798761600000),
             webId = None, pods = None\<rparr>"
  by (simp add: session_information_handler_def sessionInformation_def req0_def
      sess_with_grant_def sess0_def grant0_def)

text \<open>
  C5 does not hold of the code: for a resolved Solid session whose \<open>expirationDate\<close> is
  absent (a session whose login has not completed), \<open>new Date(undefined * 1000)\<close> is an
  invalid date, \<open>toISOString\<close> throws a RangeError, and the handler hands the error to
  the generic error handler instead of returning a view.
\<close>

theorem pending_session_view_throws:
  "locals_session req_info_pending = Some solid_anonymous
   \<and> info_expirationDate solid_anonymous = None
   \<and> o_response (session_information_handler req_info_pending frontend0 sess0) =
       NextError (RangeError ''Invalid time value'')"
  by (simp add: session_information_handler_def sessionInformation_def req_info_pending_def
      req0_def solid_anonymous_def toISOString_def Date_of_seconds_def)

section \<open>The return target of a login\<close>

lemma completes_default:
  "\<not> truthy (workaroundActive sess) \<Longrightarrow> redirectUrl sess = None \<Longrightarrow>
   locals_session req = Some s \<Longrightarrow>
   handleIncomingRedirect svc (fullUrl req) = Inr s' \<Longrightarrow> info_isLoggedIn s' \<Longrightarrow>
   oidc_redirect svc req g sess =
     \<lparr>o_session = sess, o_request_session = sess, o_frontendUrl = g,
      o_response = Redirect (searchParams_set ''login'' ''success'' g),
      o_calls = [HandleIncomingRedirect (fullUrl req)]\<rparr>"
  by (simp add: oidc_redirect_def redirect_normal_def)

text \<open>
  C8 does not hold of the code: the stored return target is never cleared. A login with
  \<open>redirectUrl\<close> set to the dashboard stores it, and the completion that logs the session
  in redirects to it with \<open>login=success\<close>. The delete that follows the redirect clears
  the request's own session object only: the saved session still holds the target. A
  second login of the same browser, asking for no return target, is then sent to the
  dashboard again instead of the front-end URL.
\<close>

theorem return_target_survives_completion:
  "query_redirectUrl req_login = Some (WellFormed return0)
   \<and> redirectUrl (o_session first_login) = Some return0
   \<and> o_response first_completion =
       Redirect \<lparr>base = ''http://localhost:4200/dashboard'',
                 searchParams = [(''tab'', ''pods''), (''login'', ''success'')]\<rparr>
   \<and> redirectUrl (o_request_session first_completion) = None
   \<and> redirectUrl (o_session first_completion) = Some return0
   \<and> query_redirectUrl req_login_plain = None
   \<and> o_response second_completion =
       Redirect \<lparr>base = ''http://localhost:4200/dashboard'',
                 searchParams = [(''tab'', ''pods''), (''login'', ''success'')]\<rparr>
   \<and> redirectUrl (o_session second_completion) = Some return0"
  by (simp add: first_login_def first_completion_def second_login_def second_completion_def
      req_login_plain_def login_handler_def storeRedirectUrl_def handler_defs example_defs
      searchParams_set_def Let_def)

section \<open>Storing an access grant and reading it back\<close>

text \<open>
  C9. Let the grant service resolve the posted id to a grant \<open>G\<close> with that id, whose
  expiration date is the instant \<open>t\<close>. Then \<open>POST /access-grant\<close> answers 200, and every
  view \<open>GET /session-information\<close> returns afterwards reports \<open>accessGrantId\<close> equal to
  the id of \<open>G\<close> and \<open>accessGrantExpirationDate\<close> equal to the ISO rendering of \<open>t\<close>. A
  view is returned whenever no Solid session is resolved or the resolved session's own
  expiration date renders.
\<close>

theorem stored_grant_is_reported:
  assumes "body_accessGrantId req1 = Some (grant_id G)"
    and "fetchAccessGrant svc (Some (grant_id G)) = Inr G"
    and "grant_id G \<noteq> []"
    and "Date_of_text (grant_expirationDate G) = ValidDate t"
  shows "o_response (access_grant_handler svc req1 g sess) = Send 200 ''Access grant set on session''
       \<and> (\<forall>v. o_response (session_information_handler req2 g
                              (o_session (access_grant_handler svc req1 g sess))) = Json v
              \<longrightarrow> accessGrantId v = Some (grant_id G)
                \<and> accessGrantExpirationDate v = Some (ISO t))
       \<and> (locals_session req2 = None
            \<or> (\<exists>s x. locals_session req2 = Some s
                     \<and> Date_of_seconds (info_expirationDate s) = ValidDate x)
          \<longrightarrow> (\<exists>v. o_response (session_information_handler req2 g
                              (o_session (access_grant_handler svc req1 g sess))) = Json v))"
proof -
  have stored: "o_session (access_grant_handler svc req1 g sess) =
      sess\<lparr>accessGrant := Some G, sess_accessGrantExpirationDate := Some (ISO t)\<rparr>"
    and answered:
      "o_response (access_grant_handler svc req1 g sess) = Send 200 ''Access grant set on session''"
    using assms by (simp_all add: access_grant_handler_def toISOString_def Let_def)
  show ?thesis
    unfolding stored answered using assms(3)
    by (auto simp: session_information_handler_def sessionInformation_def toISOString_def Let_def
        split: option.splits sum.splits js_date.splits)
qed

theorem stored_grant_is_reported_witness:
  "body_accessGrantId req_grant = Some (grant_id grant0)
   \<and> fetchAccessGrant svc_ok (Some (grant_id grant0)) = Inr grant0
   \<and> grant_id grant0 \<noteq> []
   \<and> Date_of_text (grant_expirationDate grant0) = ValidDate 1798761600000
   \<and> o_response (session_information_handler req_info_alice frontend0
        (o_session (access_grant_handler svc_ok req_grant frontend0 sess0))) =
       Json \<lparr>isLoggedIn = True, expirationDate = Some (ISO 1767225600000),
             accessGrantId = Some ''https://vc.example/vc/42'',
             accessGrantExpirationDate = Some (ISO 1798761600000),
             webId = Some ''https://id.example/alice#me'',
             pods = Some [''https://pod.example/alice/'']\<rparr>"
proof -
  have h1: "body_accessGrantId req_grant = Some (grant_id grant0)"
    by (simp add: req_grant_def req0_def grant0_def)
  have h2: "fetchAccessGrant svc_ok (Some (grant_id grant0)) = Inr grant0"
    by (simp add: svc_ok_def)
  have h3: "grant_id grant0 \<noteq> []"
    by (simp add: grant0_def)
  have h4: "Date_of_text (grant_expirationDate grant0) = ValidDate 1798761600000"
    by (simp add: Date_of_text_def TimeClip_def grant0_def)
  have view: "o_response (session_information_handler req_info_alice frontend0
        (o_session (access_grant_handler svc_ok req_grant frontend0 sess0))) =
       Json \<lparr>isLoggedIn = True, expirationDate = Some (ISO 1767225600000),
             accessGrantId = Some ''https://vc.example/vc/42'',
             accessGrantExpirationDate = Some (ISO 1798761600000),
             webId = Some ''https://id.example/alice#me'',
             pods = Some [''https://pod.example/alice/'']\<rparr>"
    by (simp add: session_information_handler_def sessionInformation_def access_grant_handler_def
        toISOString_def Date_of_text_def Date_of_seconds_def TimeClip_def truthy_def Let_def
        example_defs)
  from stored_grant_is_reported [OF h1 h2 h3 h4, of frontend0 sess0 req_info_alice]
       h1 h2 h3 h4 view
  show ?thesis by simp
qed

section \<open>The shared front-end URL\<close>

lemma params_set_twice: "params_set k w (params_set k v ps) = params_set k w ps"
  by (induction ps) (auto simp: filter_id_conv)

lemma set_set_same: "searchParams_set k w (searchParams_set k v u) = searchParams_set k w u"
  by (simp add: searchParams_set_def params_set_twice)

lemma logout_redirect_shape:
  "o_frontendUrl (logout_handler svc req g sess) = g
   \<and> (\<exists>v. o_response (logout_handler svc req g sess) = Redirect (searchParams_set ''logout'' v g))"
  by (cases "locals_session req"; cases "session_logout svc")
     (auto simp: logout_handler_def Let_def)

lemma other_handlers_frame:
  "o_frontendUrl (login_handler svc req g sess) = g
   \<and> o_frontendUrl (logout_handler svc req g sess) = g
   \<and> o_frontendUrl (session_information_handler req g sess) = g
   \<and> o_frontendUrl (access_grant_handler svc req g sess) = g"
  by (auto simp: login_handler_def logout_handler_def session_information_handler_def
      access_grant_handler_def failed_def Let_def split: sum.splits option.splits)

lemma oidc_redirect_frame:
  "o_frontendUrl (oidc_redirect svc req g sess) \<noteq> g \<Longrightarrow>
     \<not> truthy (workaroundActive sess)
     \<and> (\<exists>s s'. locals_session req = Some s
              \<and> handleIncomingRedirect svc (fullUrl req) = Inr s' \<and> \<not> info_isLoggedIn s')"
  by (auto simp: oidc_redirect_def redirect_normal_def redirect_create_web_id_def failed_def
      Let_def split: if_splits option.splits sum.splits)

text \<open>
  C10, as the code has it. When a redirect completion in the normal state returns and the
  session is not logged in, \<open>login=failed\<close> is set on the global front-end URL object
  itself, and the redirect goes to it; no other branch of \<open>/oidc-redirect\<close> and no
  other handler changes the global. From then on the global carries \<open>login=failed\<close>, and so does every
  later logout redirect, built from a copy of it. The default success redirect of a later
  login is built from a copy too, and sets \<open>login\<close> again: it carries \<open>login=success\<close>,
  not \<open>login=failed\<close>, and is the URL an unmarked global would have given.
\<close>

theorem failed_login_marks_frontend_url:
  assumes "\<not> truthy (workaroundActive sess)"
    and "locals_session req = Some s"
    and "handleIncomingRedirect svc (fullUrl req) = Inr s'"
    and "\<not> info_isLoggedIn s'"
  shows "o_frontendUrl (oidc_redirect svc req g sess) = searchParams_set ''login'' ''failed'' g
       \<and> o_response (oidc_redirect svc req g sess) = Redirect (searchParams_set ''login'' ''failed'' g)
       \<and> searchParams_get ''login'' (o_frontendUrl (oidc_redirect svc req g sess)) = Some ''failed''
       \<and> (\<exists>u. o_response (logout_handler svc_b req_b (o_frontendUrl (oidc_redirect svc req g sess)) sess_b)
                 = Redirect u
              \<and> searchParams_get ''login'' u = Some ''failed'')
       \<and> o_frontendUrl (logout_handler svc_b req_b (o_frontendUrl (oidc_redirect svc req g sess)) sess_b)
           = o_frontendUrl (oidc_redirect svc req g sess)
       \<and> (\<not> truthy (workaroundActive sess_c) \<and> redirectUrl sess_c = None
            \<and> locals_session req_c = Some s_c
            \<and> handleIncomingRedirect svc_c (fullUrl req_c) = Inr s_c' \<and> info_isLoggedIn s_c'
          \<longrightarrow> o_response (oidc_redirect svc_c req_c (o_frontendUrl (oidc_redirect svc req g sess)) sess_c)
                = Redirect (searchParams_set ''login'' ''success'' g)
             \<and> searchParams_get ''login'' (searchParams_set ''login'' ''success'' g) = Some ''success''
             \<and> o_frontendUrl (oidc_redirect svc_c req_c (o_frontendUrl (oidc_redirect svc req g sess)) sess_c)
                = o_frontendUrl (oidc_redirect svc req g sess))
       \<and> (o_frontendUrl (oidc_redirect svc_d req_d g_d sess_d) \<noteq> g_d \<longrightarrow>
            \<not> truthy (workaroundActive sess_d)
            \<and> (\<exists>s_d s_d'. locals_session req_d = Some s_d
                  \<and> handleIncomingRedirect svc_d (fullUrl req_d) = Inr s_d' \<and> \<not> info_isLoggedIn s_d'))
       \<and> o_frontendUrl (login_handler svc_d req_d g_d sess_d) = g_d
       \<and> o_frontendUrl (logout_handler svc_d req_d g_d sess_d) = g_d
       \<and> o_frontendUrl (session_information_handler req_d g_d sess_d) = g_d
       \<and> o_frontendUrl (access_grant_handler svc_d req_d g_d sess_d) = g_d"
proof -
  let ?g' = "o_frontendUrl (oidc_redirect svc req g sess)"
  have marked: "?g' = searchParams_set ''login'' ''failed'' g"
    and answered: "o_response (oidc_redirect svc req g sess)
                     = Redirect (searchParams_set ''login'' ''failed'' g)"
    using assms by (simp_all add: oidc_redirect_def redirect_normal_def Let_def)
  have kept: "searchParams_get ''login'' ?g' = Some ''failed''"
    by (simp add: marked get_set_same)
  obtain v where v: "o_response (logout_handler svc_b req_b ?g' sess_b)
                       = Redirect (searchParams_set ''logout'' v ?g')"
    using logout_redirect_shape by blast
  have carried: "\<exists>u. o_response (logout_handler svc_b req_b ?g' sess_b) = Redirect u
                    \<and> searchParams_get ''login'' u = Some ''failed''"
    using v kept by (simp add: get_set_other)
  have logout_frame: "o_frontendUrl (logout_handler svc_b req_b ?g' sess_b) = ?g'"
    using logout_redirect_shape by blast
  have overwritten:
    "\<not> truthy (workaroundActive sess_c) \<and> redirectUrl sess_c = None
       \<and> locals_session req_c = Some s_c
       \<and> handleIncomingRedirect svc_c (fullUrl req_c) = Inr s_c' \<and> info_isLoggedIn s_c'
     \<longrightarrow> o_response (oidc_redirect svc_c req_c ?g' sess_c)
           = Redirect (searchParams_set ''login'' ''success'' g)
        \<and> searchParams_get ''login'' (searchParams_set ''login'' ''success'' g) = Some ''success''
        \<and> o_frontendUrl (oidc_redirect svc_c req_c ?g' sess_c) = ?g'"
    using completes_default [of sess_c req_c s_c svc_c s_c' "searchParams_set ''login'' ''failed'' g"]
    by (simp add: marked set_set_same get_set_same)
  have frame: "o_frontendUrl (oidc_redirect svc_d req_d g_d sess_d) \<noteq> g_d \<longrightarrow>
            \<not> truthy (workaroundActive sess_d)
            \<and> (\<exists>s_d s_d'. locals_session req_d = Some s_d
                  \<and> handleIncomingRedirect svc_d (fullUrl req_d) = Inr s_d' \<and> \<not> info_isLoggedIn s_d')"
    using oidc_redirect_frame by blast
  from marked answered kept carried logout_frame overwritten frame
       other_handlers_frame [of svc_d req_d g_d sess_d]
  show ?thesis by blast
qed

theorem failed_login_marks_frontend_url_witness:
  "\<not> truthy (workaroundActive sess0)
   \<and> locals_session req_redirect = Some solid_anonymous
   \<and> handleIncomingRedirect svc_not_logged_in (fullUrl req_redirect) = Inr solid_anonymous
   \<and> \<not> info_isLoggedIn solid_anonymous
   \<and> o_frontendUrl (oidc_redirect svc_not_logged_in req_redirect frontend0 sess0) =
       \<lparr>base = ''http://localhost:4200/'', searchParams = [(''login'', ''failed'')]\<rparr>
   \<and> o_response (logout_handler svc_ok req_logout
        (o_frontendUrl (oidc_redirect svc_not_logged_in req_redirect frontend0 sess0)) sess_with_grant) =
       Redirect \<lparr>base = ''http://localhost:4200/'',
                 searchParams = [(''login'', ''failed''), (''logout'', ''success'')]\<rparr>"
proof -
  have h3: "handleIncomingRedirect svc_not_logged_in (fullUrl req_redirect) = Inr solid_anonymous"
    by (simp add: svc_not_logged_in_def svc_ok_def)
  have h4: "\<not> info_isLoggedIn solid_anonymous"
    by (simp add: solid_anonymous_def)
  have u: "searchParams_set ''login'' ''failed'' frontend0 =
             \<lparr>base = ''http://localhost:4200/'', searchParams = [(''login'', ''failed'')]\<rparr>"
    by (simp add: searchParams_set_def frontend0_def)
  have out: "o_response (logout_handler svc_ok req_logout
               \<lparr>base = ''http://localhost:4200/'', searchParams = [(''login'', ''failed'')]\<rparr>
               sess_with_grant) =
       Redirect \<lparr>base = ''http://localhost:4200/'',
                 searchParams = [(''login'', ''failed''), (''logout'', ''success'')]\<rparr>"
    by (simp add: logout_handler_def req_logout_def req0_def svc_ok_def searchParams_set_def
        Let_def)
  from failed_login_marks_frontend_url
         [OF sess0_not_in_workaround req_redirect_session h3 h4, of frontend0]
       sess0_not_in_workaround req_redirect_session h3 h4 u out
  show ?thesis by simp
qed

text \<open>
  C10 as worded fails for the default success redirect: after a failed login has marked
  the global, a later successful completion with no stored return target redirects to the
  front-end URL with \<open>login=success\<close> and nothing else.
\<close>

theorem later_success_redirect_not_marked:
  "searchParams_get ''login'' (o_frontendUrl (oidc_redirect svc_not_logged_in req_redirect frontend0 sess0))
     = Some ''failed''
   \<and> o_response (oidc_redirect svc_ok req_redirect
        (o_frontendUrl (oidc_redirect svc_not_logged_in req_redirect frontend0 sess0)) sess0)
     = Redirect \<lparr>base = ''http://localhost:4200/'', searchParams = [(''login'', ''success'')]\<rparr>"
  by (simp add: handler_defs example_defs searchParams_set_def searchParams_get_def Let_def)

section \<open>The provisioning round trip of a login attempt\<close>

lemma leg_never_completes:
  "truthy (workaroundActive sess) \<Longrightarrow>
     HandleIncomingRedirect x \<notin> set (o_calls (oidc_redirect svc req g sess))"
  by (auto simp: oidc_redirect_def redirect_create_web_id_def failed_def Let_def
      split: sum.splits)

lemma normal_never_provisions:
  "\<not> truthy (workaroundActive sess) \<Longrightarrow>
     filter is_provision (o_calls (oidc_redirect svc req g sess)) = []"
  by (auto simp: oidc_redirect_def redirect_normal_def is_provision_def Let_def
      split: sum.splits option.splits)

lemma provisions_at_most_once:
  "length (filter is_provision (o_calls (oidc_redirect svc req g sess))) \<le> 1"
  by (auto simp: oidc_redirect_def redirect_normal_def redirect_create_web_id_def failed_def
      is_provision_def Let_def split: sum.splits option.splits)

text \<open>
  C3, as the code has it. Take three successive redirect completions of one browser: the
  first, in the normal state, fails with the missing-claim error and its login answers;
  in the second every call of the provisioning leg answers; the third logs the session
  in. Then the responses are the login redirect, the login redirect with the
  identity-switch hint, and the success redirect; the calls are one token exchange and
  one provisioning between the two logins; \<open>workaroundActive\<close> is \<open>create_web_id\<close> after
  the first and cleared after the second. In any single completion: while
  \<open>workaroundActive\<close> is set the normal redirect completion is never called, while it is
  unset nothing is provisioned, and provisioning is called at most once. Nothing bounds
  how often the workaround is entered.
\<close>

theorem one_provisioning_round_trip:
  assumes "\<not> truthy (workaroundActive sess)"
    and "locals_session req_a = Some s_a"
    and "handleIncomingRedirect svc_a (fullUrl req_a) = Inl e"
    and "no_webid_claim e"
    and "oidc_login svc_a (Some (info_sessionId s_a)) = Inr u_a"
    and "storage_get svc_b (storageKey (solidSid sess)) = Inr (Parsed v)"
    and "getToken svc_b (query_code req_b) v (query_state req_b) = Inr (TokenData t)"
    and "provisionWebId svc_b t = Inr ()"
    and "oidc_login svc_b (sessionId_of (locals_session req_b)) = Inr u_b"
    and "locals_session req_c = Some s_c"
    and "handleIncomingRedirect svc_c (fullUrl req_c) = Inr s_c'"
    and "info_isLoggedIn s_c'"
  shows "map o_response (oidc_redirects [(svc_a, req_a), (svc_b, req_b), (svc_c, req_c)] g sess) =
           [Redirect (loginRedirectUrl False u_a),
            Redirect (loginRedirectUrl True u_b),
            Redirect (searchParams_set ''login'' ''success''
                        (case redirectUrl sess of Some r \<Rightarrow> r | None \<Rightarrow> g))]
       \<and> searchParams_get ''login_hint'' (loginRedirectUrl True u_b) = Some switch_hint
       \<and> all_calls (oidc_redirects [(svc_a, req_a), (svc_b, req_b), (svc_c, req_c)] g sess) =
           [HandleIncomingRedirect (fullUrl req_a), Login (Some (info_sessionId s_a)),
            StorageGet (storageKey (solidSid sess)),
            GetToken (query_code req_b) v (query_state req_b),
            ProvisionWebId t,
            Login (sessionId_of (locals_session req_b)),
            HandleIncomingRedirect (fullUrl req_c)]
       \<and> map (\<lambda>r. workaroundActive (o_session r))
            (oidc_redirects [(svc_a, req_a), (svc_b, req_b), (svc_c, req_c)] g sess) =
           [Some ''create_web_id'', None, None]
       \<and> length (filter is_provision
            (all_calls (oidc_redirects [(svc_a, req_a), (svc_b, req_b), (svc_c, req_c)] g sess))) = 1
       \<and> (truthy (workaroundActive sess') \<longrightarrow>
            (\<forall>x. HandleIncomingRedirect x \<notin> set (o_calls (oidc_redirect svc req g' sess'))))
       \<and> (\<not> truthy (workaroundActive sess') \<longrightarrow>
            filter is_provision (o_calls (oidc_redirect svc req g' sess')) = [])
       \<and> length (filter is_provision (o_calls (oidc_redirect svc req g' sess'))) \<le> 1"
proof -
  let ?entered = "sess\<lparr>workaroundActive := Some ''create_web_id''\<rparr>"
  let ?cleared = "sess\<lparr>workaroundActive := None\<rparr>"
  let ?c_a = "[HandleIncomingRedirect (fullUrl req_a), Login (Some (info_sessionId s_a))]"
  let ?c_b = "[StorageGet (storageKey (solidSid sess)),
              GetToken (query_code req_b) v (query_state req_b),
              ProvisionWebId t,
              Login (sessionId_of (locals_session req_b))]"
  let ?target = "case redirectUrl sess of Some r \<Rightarrow> r | None \<Rightarrow> g"
  let ?run = "oidc_redirects [(svc_a, req_a), (svc_b, req_b), (svc_c, req_c)] g sess"
  have first: "oidc_redirect svc_a req_a g sess =
      \<lparr>o_session = ?entered, o_request_session = ?entered, o_frontendUrl = g,
       o_response = Redirect (loginRedirectUrl False u_a), o_calls = ?c_a\<rparr>"
    using assms(1-5) by (simp add: oidc_redirect_def redirect_normal_def Let_def)
  have second: "oidc_redirect svc_b req_b g ?entered =
      \<lparr>o_session = ?cleared, o_request_session = ?cleared, o_frontendUrl = g,
       o_response = Redirect (loginRedirectUrl True u_b), o_calls = ?c_b\<rparr>"
    using assms(6-9)
    by (simp add: oidc_redirect_def redirect_create_web_id_def truthy_def Let_def
          codeVerifier_of_def id_token_of_def)
  have third: "o_response (oidc_redirect svc_c req_c g ?cleared)
                 = Redirect (searchParams_set ''login'' ''success'' ?target)
      \<and> o_calls (oidc_redirect svc_c req_c g ?cleared) = [HandleIncomingRedirect (fullUrl req_c)]
      \<and> workaroundActive (o_session (oidc_redirect svc_c req_c g ?cleared)) = None"
    using assms(10-12)
    by (cases "redirectUrl sess")
       (simp_all add: oidc_redirect_def redirect_normal_def truthy_def)
  have run: "?run =
      [oidc_redirect svc_a req_a g sess, oidc_redirect svc_b req_b g ?entered,
       oidc_redirect svc_c req_c g ?cleared]"
    by (simp add: Let_def first second)
  have responses: "map o_response ?run =
           [Redirect (loginRedirectUrl False u_a), Redirect (loginRedirectUrl True u_b),
            Redirect (searchParams_set ''login'' ''success'' ?target)]"
    by (simp add: run first second third)
  have calls: "all_calls ?run = ?c_a @ ?c_b @ [HandleIncomingRedirect (fullUrl req_c)]"
    by (simp add: run all_calls_def first second third)
  have states: "map (\<lambda>r. workaroundActive (o_session r)) ?run = [Some ''create_web_id'', None, None]"
    using third second first by (simp add: run)
  have once: "length (filter is_provision (all_calls ?run)) = 1"
    unfolding calls by (simp add: is_provision_def)
  have hint: "searchParams_get ''login_hint'' (loginRedirectUrl True u_b) = Some switch_hint"
    by (rule login_hint_carried)
  have routed_away: "truthy (workaroundActive sess') \<longrightarrow>
            (\<forall>x. HandleIncomingRedirect x \<notin> set (o_calls (oidc_redirect svc req g' sess')))"
    using leg_never_completes by blast
  have no_entry_provisioning: "\<not> truthy (workaroundActive sess') \<longrightarrow>
            filter is_provision (o_calls (oidc_redirect svc req g' sess')) = []"
    using normal_never_provisions by blast
  have at_most_once:
    "length (filter is_provision (o_calls (oidc_redirect svc req g' sess'))) \<le> 1"
    by (rule provisions_at_most_once)
  have calls': "all_calls ?run =
           [HandleIncomingRedirect (fullUrl req_a), Login (Some (info_sessionId s_a)),
            StorageGet (storageKey (solidSid sess)),
            GetToken (query_code req_b) v (query_state req_b),
            ProvisionWebId t,
            Login (sessionId_of (locals_session req_b)),
            HandleIncomingRedirect (fullUrl req_c)]"
    unfolding calls by simp
  from responses hint calls' states once routed_away no_entry_provisioning at_most_once
  show ?thesis by (intro conjI)
qed

theorem one_provisioning_round_trip_witness:
  "\<not> truthy (workaroundActive sess_after_login)
   \<and> locals_session req_redirect = Some solid_anonymous
   \<and> handleIncomingRedirect svc_no_claim (fullUrl req_redirect) = Inl no_claim_error
   \<and> no_webid_claim no_claim_error
   \<and> handleIncomingRedirect svc_ok (fullUrl req_redirect) = Inr solid_alice
   \<and> info_isLoggedIn solid_alice
   \<and> map o_response (oidc_redirects [(svc_no_claim, req_redirect), (svc_ok, req_redirect),
                                     (svc_ok, req_redirect)] frontend0 sess_after_login) =
       [Redirect \<lparr>base = ''https://idp.example/op/auth'',
                  searchParams = [(''client_id'', ''demo''), (''scope'', ''openid webid rrn'')]\<rparr>,
        Redirect \<lparr>base = ''https://idp.example/op/auth'',
                  searchParams = [(''client_id'', ''demo''), (''scope'', ''openid webid rrn''),
                                  (''login_hint'', ''eyJzd2l0Y2hfaWQiOiB0cnVlfQ=='')]\<rparr>,
        Redirect \<lparr>base = ''http://localhost:4200/'', searchParams = [(''login'', ''success'')]\<rparr>]
   \<and> length (filter is_provision
        (all_calls (oidc_redirects [(svc_no_claim, req_redirect), (svc_ok, req_redirect),
                                    (svc_ok, req_redirect)] frontend0 sess_after_login))) = 1"
proof -
  have h1: "\<not> truthy (workaroundActive sess_after_login)"
    by (simp add: truthy_def sess_after_login_def sess0_def)
  have h3: "handleIncomingRedirect svc_no_claim (fullUrl req_redirect) = Inl no_claim_error"
    by (simp add: svc_no_claim_def svc_ok_def)
  have h5: "oidc_login svc_no_claim (Some (info_sessionId solid_anonymous)) = Inr idp0"
    by (simp add: svc_no_claim_def svc_ok_def)
  have h6: "storage_get svc_ok (storageKey (solidSid sess_after_login)) = Inr (Parsed (Some ''verifier-1''))"
    by (simp add: svc_ok_def)
  have h7: "getToken svc_ok (query_code req_redirect) (Some ''verifier-1'') (query_state req_redirect)
              = Inr (TokenData (Some ''id-token-1''))"
    by (simp add: svc_ok_def)
  have h8: "provisionWebId svc_ok (Some ''id-token-1'') = Inr ()"
    by (simp add: svc_ok_def)
  have h9: "oidc_login svc_ok (sessionId_of (locals_session req_redirect)) = Inr idp0"
    by (simp add: svc_ok_def)
  have h11: "handleIncomingRedirect svc_ok (fullUrl req_redirect) = Inr solid_alice"
    by (simp add: svc_ok_def)
  have h12: "info_isLoggedIn solid_alice"
    by (simp add: solid_alice_def)
  have target: "redirectUrl sess_after_login = None"
    by (simp add: sess_after_login_def sess0_def)
  have u: "searchParams_set ''login'' ''success'' frontend0 =
             \<lparr>base = ''http://localhost:4200/'', searchParams = [(''login'', ''success'')]\<rparr>"
    by (simp add: searchParams_set_def frontend0_def)
  note round_trip = one_provisioning_round_trip
         [OF h1 req_redirect_session h3 no_claim_error_matches h5 h6 h7 h8 h9
             req_redirect_session h11 h12, of frontend0]
  from round_trip have
    "map o_response (oidc_redirects [(svc_no_claim, req_redirect), (svc_ok, req_redirect),
                                     (svc_ok, req_redirect)] frontend0 sess_after_login) =
       [Redirect (loginRedirectUrl False idp0), Redirect (loginRedirectUrl True idp0),
        Redirect (searchParams_set ''login'' ''success''
                    (case redirectUrl sess_after_login of Some r \<Rightarrow> r | None \<Rightarrow> frontend0))]"
    and "length (filter is_provision
        (all_calls (oidc_redirects [(svc_no_claim, req_redirect), (svc_ok, req_redirect),
                                    (svc_ok, req_redirect)] frontend0 sess_after_login))) = 1"
    by blast+
  with h1 req_redirect_session h3 no_claim_error_matches h11 h12
  show ?thesis
    by (simp only: target option.case login_url_idp0 login_url_idp0_switch u simp_thms)
qed

text \<open>
  C3 as worded fails when the token still lacks the claim after the provisioning: four
  successive redirect completions of one login attempt, each completion failing with the
  missing-claim error, enter the provisioning leg twice and provision twice.
\<close>

theorem workaround_entered_twice:
  "map (\<lambda>r. workaroundActive (o_session r))
     (oidc_redirects [(svc_no_claim, req_redirect), (svc_no_claim, req_redirect),
                      (svc_no_claim, req_redirect), (svc_no_claim, req_redirect)]
        frontend0 sess_after_login) =
     [Some ''create_web_id'', None, Some ''create_web_id'', None]
   \<and> all_calls (oidc_redirects [(svc_no_claim, req_redirect), (svc_no_claim, req_redirect),
                             (svc_no_claim, req_redirect), (svc_no_claim, req_redirect)]
               frontend0 sess_after_login) =
     [HandleIncomingRedirect ''http://localhost:3001/oidc-redirect?code=code-1&state=state-1'',
      Login (Some ''sid-1''),
      StorageGet ''solidClientAuthenticationUser:sid-1'',
      GetToken (Some ''code-1'') (Some ''verifier-1'') (Some ''state-1''),
      ProvisionWebId (Some ''id-token-1''),
      Login (Some ''sid-1''),
      HandleIncomingRedirect ''http://localhost:3001/oidc-redirect?code=code-1&state=state-1'',
      Login (Some ''sid-1''),
      StorageGet ''solidClientAuthenticationUser:sid-1'',
      GetToken (Some ''code-1'') (Some ''verifier-1'') (Some ''state-1''),
      ProvisionWebId (Some ''id-token-1''),
      Login (Some ''sid-1'')]
   \<and> length (filter is_provision
        (all_calls (oidc_redirects [(svc_no_claim, req_redirect), (svc_no_claim, req_redirect),
                             (svc_no_claim, req_redirect), (svc_no_claim, req_redirect)]
               frontend0 sess_after_login))) = 2"
  by (simp add: all_calls_def is_provision_def handler_defs example_defs Let_def)

end
